theory Spec2Isabelle
  imports Complex_Main "HOL-Library.Word"
begin

unbundle bit_operations_syntax

section \<open>JavaScript numbers\<close>

text \<open>
  The content script computes with JavaScript numbers. They are modelled here as exact
  rationals: every finite double is a rational, the arithmetic of the model is exact (the
  rounding error of the double operations is not modelled), and \<open>NaN\<close> and the infinities
  are not values of the model. The tests \<open>typeof x !== 'number'\<close> and \<open>isNaN(x)\<close> at the
  head of the calculation functions therefore always pass and are left out. \<open>null\<close> is the
  value \<open>None\<close> of an option type. Console output is modelled only for
  \<open>calculateAfterFeeOdds\<close>, where it is the whole effect of part of the validation.

  \<open>Math.round\<close> rounds to the nearest integer and rounds a tie towards plus infinity,
  \<open>Math.ceil\<close> rounds up, \<open>Number.isInteger\<close> tests for a whole number.
\<close>

type_synonym number = rat

definition Math_round :: "number \<Rightarrow> int" where
  "Math_round x = \<lfloor>x + 1 / 2\<rfloor>"

definition Math_ceil :: "number \<Rightarrow> int" where
  "Math_ceil x = \<lceil>x\<rceil>"

definition Number_isInteger :: "number \<Rightarrow> bool" where
  "Number_isInteger x = (of_int \<lfloor>x\<rfloor> = x)"


section \<open>Odds conversion (content.js, probabilityToAmericanOdds and americanOddsToProbability)\<close>

definition probabilityToAmericanOdds :: "number \<Rightarrow> int option" where
  "probabilityToAmericanOdds p =
     (if p \<le> 0 \<or> p \<ge> 1 then None
      else Some (Math_round
        (if \<bar>p - 1 / 2\<bar> < 1 / 1000 then 100
         else if p < 1 / 2 then 100 * (1 - p) / p
         else - 100 * p / (1 - p))))"

definition americanOddsToProbability :: "number \<Rightarrow> number option" where
  "americanOddsToProbability americanOdds =
     (if americanOdds = 0 then None
      else if americanOdds > 0 then Some (100 / (americanOdds + 100))
      else Some (\<bar>americanOdds\<bar> / (\<bar>americanOdds\<bar> + 100)))"

text \<open>The composition of the two conversions; no result propagates.\<close>

definition oddsRoundTrip :: "number \<Rightarrow> int option" where
  "oddsRoundTrip odds =
     (case americanOddsToProbability odds of
        None \<Rightarrow> None
      | Some p \<Rightarrow> probabilityToAmericanOdds p)"


section \<open>After-fee odds (content.js, calculateAfterFeeOdds and its validators)\<close>

text \<open>
  Each validator of the source returns an object \<open>{isValid: true}\<close> or
  \<open>{isValid: false, error: message}\<close>; the message is a template string, modelled by one
  constructor per template that carries the interpolated values.
\<close>

datatype validation_error =
    RiskMismatch number number
  | RiskOutOfRange number
  | ProfitMismatch number number
  | ProfitNotPositive number
  | OddsMismatch number int
  | OddsOutOfRange int
  | MathematicalInconsistency number number

datatype validation = Valid | Invalid validation_error

definition validateCalculatedRisk :: "number \<Rightarrow> number \<Rightarrow> number \<Rightarrow> validation" where
  "validateCalculatedRisk price feePerContract calculatedRisk =
     (let expectedRisk = price + feePerContract; tolerance = 1 / 10000 in
      if \<bar>calculatedRisk - expectedRisk\<bar> > tolerance
        then Invalid (RiskMismatch expectedRisk calculatedRisk)
      else if calculatedRisk \<le> 0 \<or> calculatedRisk \<ge> 1
        then Invalid (RiskOutOfRange calculatedRisk)
      else Valid)"

definition validateCalculatedProfit :: "number \<Rightarrow> number \<Rightarrow> validation" where
  "validateCalculatedProfit calculatedRisk calculatedProfit =
     (let expectedProfit = 1 - calculatedRisk; tolerance = 1 / 10000 in
      if \<bar>calculatedProfit - expectedProfit\<bar> > tolerance
        then Invalid (ProfitMismatch expectedProfit calculatedProfit)
      else if calculatedProfit \<le> 0
        then Invalid (ProfitNotPositive calculatedProfit)
      else Valid)"

definition validateAfterFeeOdds :: "number \<Rightarrow> number \<Rightarrow> int \<Rightarrow> validation" where
  "validateAfterFeeOdds calculatedRisk calculatedProfit afterFeeOdds =
     (let expectedOdds =
            (if calculatedProfit \<ge> calculatedRisk
             then 100 * (calculatedProfit / calculatedRisk)
             else - 100 * (calculatedRisk / calculatedProfit));
          tolerance = 3 / 2 in
      if \<bar>of_int afterFeeOdds - expectedOdds\<bar> > tolerance
        then Invalid (OddsMismatch expectedOdds afterFeeOdds)
      else if \<bar>afterFeeOdds\<bar> > 10000
        then Invalid (OddsOutOfRange afterFeeOdds)
      else Valid)"

definition validateMathematicalConsistency :: "number \<Rightarrow> number \<Rightarrow> int \<Rightarrow> validation" where
  "validateMathematicalConsistency price feePerContract afterFeeOdds =
     (let impliedProbability =
            (if afterFeeOdds > 0
             then 100 / (of_int afterFeeOdds + 100)
             else of_int (- afterFeeOdds) / (of_int (- afterFeeOdds) + 100));
          effectiveProbability = 1 / (price + feePerContract);
          tolerance = 2 / 100 in
      if \<bar>impliedProbability - effectiveProbability\<bar> > tolerance
        then Invalid (MathematicalInconsistency impliedProbability effectiveProbability)
      else Valid)"

text \<open>
  \<open>calculateAfterFeeOdds\<close> writes to the console and returns the odds or \<open>null\<close>. The
  model returns both: the list of console warnings in the order they are written, and the
  result. \<open>options.enableValidation\<close> is \<open>None\<close> when the caller leaves it out; the source
  tests \<open>options.enableValidation !== false\<close>.
\<close>

datatype warning =
    PriceOutOfValidRange number
  | NegativeFeePerContract number
  | RiskValidationFailed validation_error
  | ProfitValidationFailed validation_error
  | RiskAtLeastOne number number number
  | NonPositiveProfit number number
  | OddsValidationFailed validation_error
  | ConsistencyCheckFailed validation_error
  | HighRiskTrade number
  | ExtremeOddsValue int

record after_fee_options =
  enableValidation :: "bool option"

definition intermediateCheck :: "bool \<Rightarrow> number \<Rightarrow> number \<Rightarrow> number \<Rightarrow> number \<Rightarrow> warning option" where
  \<comment> \<open>the block between the intermediate values and the conversion: the warning of the
      branch that returns \<open>null\<close>, or \<open>None\<close> when the function goes on\<close>
  "intermediateCheck validating price feePerContract calculatedRisk calculatedProfit =
     (if validating then
        (case validateCalculatedRisk price feePerContract calculatedRisk of
           Invalid e \<Rightarrow> Some (RiskValidationFailed e)
         | Valid \<Rightarrow>
            (case validateCalculatedProfit calculatedRisk calculatedProfit of
               Invalid e \<Rightarrow> Some (ProfitValidationFailed e)
             | Valid \<Rightarrow> None))
      else if calculatedRisk \<ge> 1
        then Some (RiskAtLeastOne price feePerContract calculatedRisk)
      else if calculatedProfit \<le> 0
        then Some (NonPositiveProfit calculatedProfit calculatedRisk)
      else None)"

definition calculateAfterFeeOdds ::
    "number \<Rightarrow> number \<Rightarrow> after_fee_options \<Rightarrow> warning list \<times> int option" where
  "calculateAfterFeeOdds price feePerContract options =
     (let validating = (enableValidation options \<noteq> Some False) in
      if price \<le> 0 \<or> price > 1 then ([PriceOutOfValidRange price], None)
      else if feePerContract < 0 then ([NegativeFeePerContract feePerContract], None)
      else
        let calculatedRisk = price + feePerContract;
            calculatedProfit = 1 - calculatedRisk in
        case intermediateCheck validating price feePerContract calculatedRisk calculatedProfit of
          Some w \<Rightarrow> ([w], None)
        | None \<Rightarrow>
            let rawOdds =
                  (if calculatedProfit \<ge> calculatedRisk
                   then 100 * (calculatedProfit / calculatedRisk)
                   else - 100 * (calculatedRisk / calculatedProfit));
                finalOdds = Math_round rawOdds in
            if validating then
              (case validateAfterFeeOdds calculatedRisk calculatedProfit finalOdds of
                 Invalid e \<Rightarrow> ([OddsValidationFailed e], None)
               | Valid \<Rightarrow>
                  ((case validateMathematicalConsistency price feePerContract finalOdds of
                      Invalid e \<Rightarrow> [ConsistencyCheckFailed e]
                    | Valid \<Rightarrow> [])
                   @ (if calculatedRisk > 95 / 100 then [HighRiskTrade calculatedRisk] else [])
                   @ (if \<bar>finalOdds\<bar> > 1000 then [ExtremeOddsValue finalOdds] else []),
                   Some finalOdds))
            else ([], Some finalOdds))"

definition defaultOptions :: after_fee_options where
  \<comment> \<open>the default parameter \<open>options = {}\<close>\<close>
  "defaultOptions = \<lparr>enableValidation = None\<rparr>"


section \<open>Fee estimate (content.js, calculateKalshiFeeEstimate)\<close>

text \<open>
  The options object has two optional properties; \<open>None\<close> is a property left out, which
  the destructuring \<open>{ feeType = 'taker', assumeMakerFeeFree = false }\<close> replaces by its
  default. The rate table has the two own keys \<open>taker\<close> and \<open>maker\<close>; any other fee type
  falls back to the taker rate through \<open>feeRates[feeType] || feeRates.taker\<close> (the names of
  inherited object properties are not fee types of the model). The returned object is
  modelled without its display string \<open>formula\<close>; the console warning for a fee above five
  cents per contract does not change the result and is left out.
\<close>

record fee_estimate_options =
  feeType :: "string option"
  assumeMakerFeeFree :: "bool option"

record fee_estimate =
  totalFee :: number
  perContractFee :: number
  feeType :: string
  priceUsed :: number
  quantityUsed :: number
  baseFeePerContract :: "number option"
  maxFeeAtFiftyPercent :: "number option"

definition feeRates :: "string \<Rightarrow> number option" where
  "feeRates k = (if k = ''taker'' then Some (7 / 100)
                 else if k = ''maker'' then Some (175 / 10000)
                 else None)"

definition calculateKalshiFeeEstimate ::
    "number \<Rightarrow> number \<Rightarrow> fee_estimate_options \<Rightarrow> fee_estimate option" where
  "calculateKalshiFeeEstimate price quantity options =
     (if price \<le> 0 \<or> price > 1 then None
      else if quantity \<le> 0 \<or> \<not> Number_isInteger quantity then None
      else
        let ft = (case fee_estimate_options.feeType options of None \<Rightarrow> ''taker'' | Some t \<Rightarrow> t);
            makerFree = (case assumeMakerFeeFree options of None \<Rightarrow> False | Some b \<Rightarrow> b) in
        if ft = ''maker'' \<and> makerFree then
          Some \<lparr>totalFee = 0, perContractFee = 0, feeType = ''maker (fee-free)'',
                priceUsed = price, quantityUsed = quantity,
                baseFeePerContract = None, maxFeeAtFiftyPercent = None\<rparr>
        else
          let feeRate = (case feeRates ft of Some r \<Rightarrow> r | None \<Rightarrow> 7 / 100);
              baseFee = feeRate * price * (1 - price);
              totalBaseFee = baseFee * quantity;
              roundedTotalFee = of_int (Math_ceil (totalBaseFee * 100)) / 100;
              actualPerContractFee = roundedTotalFee / quantity in
          Some \<lparr>totalFee = roundedTotalFee, perContractFee = actualPerContractFee,
                feeType = ft, priceUsed = price, quantityUsed = quantity,
                baseFeePerContract = Some baseFee,
                maxFeeAtFiftyPercent = Some (feeRate * (1 / 2) * (1 / 2))\<rparr>)"


section \<open>Numeric validation (content.js, sanitizeNumericValue and the isValid functions)\<close>

text \<open>
  The value handed to \<open>sanitizeNumericValue\<close> is a number, or \<open>None\<close> for \<open>null\<close>,
  \<open>undefined\<close> and \<open>NaN\<close>, for all of which the source returns the fallback value. (The
  string branch of the source is not modelled: ticket fields and the results of
  \<open>parseInt\<close> are numbers.) \<open>maxDecimalPlaces\<close> is \<open>None\<close> for \<open>null\<close>.
\<close>

record sanitize_options =
  allowNegative :: bool
  allowZero :: bool
  maxDecimalPlaces :: "nat option"
  fallbackValue :: "number option"

definition sanitizeNumericValue :: "number option \<Rightarrow> sanitize_options \<Rightarrow> number option" where
  "sanitizeNumericValue val options =
     (case val of
        None \<Rightarrow> fallbackValue options
      | Some v \<Rightarrow>
          if \<not> allowNegative options \<and> v < 0 then fallbackValue options
          else if \<not> allowZero options \<and> v = 0 then fallbackValue options
          else (case maxDecimalPlaces options of
                  None \<Rightarrow> Some v
                | Some d \<Rightarrow>
                    let multiplier = 10 ^ d in
                    Some (of_int (Math_round (v * multiplier)) / multiplier)))"

text \<open>
  The source counts the digits after the decimal point of \<open>toString()\<close> and compares the
  count with a bound. \<open>decimalPlacesUpTo n x\<close> is the number of decimal places of \<open>x\<close> when
  \<open>x\<close> has at most \<open>n\<close> of them, and \<open>n + 1\<close> otherwise: it answers the comparison with
  the bound \<open>n\<close>, which is all the source asks.
\<close>

fun decimalPlacesUpTo :: "nat \<Rightarrow> number \<Rightarrow> nat" where
  "decimalPlacesUpTo 0 x = (if Number_isInteger x then 0 else 1)"
| "decimalPlacesUpTo (Suc n) x =
     (if Number_isInteger x then 0 else Suc (decimalPlacesUpTo n (x * 10)))"

record price_options =
  minPrice :: number
  maxPrice :: number
  allowExactZero :: bool
  allowExactOne :: bool

definition defaultPriceOptions :: price_options where
  "defaultPriceOptions =
     \<lparr>minPrice = 1 / 100, maxPrice = 1, allowExactZero = False, allowExactOne = True\<rparr>"

definition isValidPrice :: "number option \<Rightarrow> price_options \<Rightarrow> bool" where
  "isValidPrice price options =
     (case sanitizeNumericValue price
             \<lparr>allowNegative = False, allowZero = allowExactZero options,
              maxDecimalPlaces = Some 4, fallbackValue = None\<rparr> of
        None \<Rightarrow> False
      | Some sanitizedPrice \<Rightarrow>
          if sanitizedPrice < minPrice options then False
          else if sanitizedPrice > maxPrice options then False
          else if sanitizedPrice = 0 \<and> \<not> allowExactZero options then False
          else if sanitizedPrice = 1 \<and> \<not> allowExactOne options then False
          else if decimalPlacesUpTo 4 sanitizedPrice > 4 then False
          else True)"

record quantity_options =
  minQuantity :: number
  maxQuantity :: number
  requireInteger :: bool

definition defaultQuantityOptions :: quantity_options where
  "defaultQuantityOptions = \<lparr>minQuantity = 1, maxQuantity = 10000, requireInteger = True\<rparr>"

definition MAX_SAFE_INTEGER :: number where
  "MAX_SAFE_INTEGER = 2 ^ 53 - 1"

definition isValidQuantity :: "number option \<Rightarrow> quantity_options \<Rightarrow> bool" where
  "isValidQuantity quantity options =
     (case sanitizeNumericValue quantity
             \<lparr>allowNegative = False, allowZero = False,
              maxDecimalPlaces = Some (if requireInteger options then 0 else 4),
              fallbackValue = None\<rparr> of
        None \<Rightarrow> False
      | Some sanitizedQuantity \<Rightarrow>
          if requireInteger options \<and> \<not> Number_isInteger sanitizedQuantity then False
          else if sanitizedQuantity < minQuantity options then False
          else if sanitizedQuantity > maxQuantity options then False
          else if sanitizedQuantity > MAX_SAFE_INTEGER then False
          else True)"

record fee_options =
  minFee :: number
  maxFee :: number
  allowZero :: bool
  maxDecimalPlaces :: nat

definition defaultFeeOptions :: fee_options where
  "defaultFeeOptions = \<lparr>minFee = 0, maxFee = 1000, allowZero = True, maxDecimalPlaces = 4\<rparr>"

definition isValidFee :: "number option \<Rightarrow> fee_options \<Rightarrow> bool" where
  "isValidFee fee options =
     (case sanitizeNumericValue fee
             \<lparr>allowNegative = False, allowZero = fee_options.allowZero options,
              maxDecimalPlaces = Some (fee_options.maxDecimalPlaces options),
              fallbackValue = None\<rparr> of
        None \<Rightarrow> False
      | Some sanitizedFee \<Rightarrow>
          if sanitizedFee < minFee options then False
          else if sanitizedFee > maxFee options then False
          else if sanitizedFee = 0 \<and> \<not> fee_options.allowZero options then False
          else if decimalPlacesUpTo (fee_options.maxDecimalPlaces options) sanitizedFee
                    > fee_options.maxDecimalPlaces options then False
          else True)"


section \<open>Ticket validation (content.js, validateTicketData)\<close>

text \<open>
  The operators \<open>&&\<close> and \<open>||\<close> of JavaScript return one of their operands, so the
  fields \<open>isValid\<close>, \<open>hasCriticalData\<close> and \<open>canProceed\<close> can hold the side itself
  (\<open>null\<close> or the empty string) instead of a boolean. \<open>jsval\<close> has the values these
  fields can take, \<open>truthy\<close> is the conversion to a boolean that \<open>if\<close>, \<open>!\<close>, \<open>&&\<close> and
  \<open>||\<close> apply.
\<close>

datatype jsval = JSNull | JSBool bool | JSString string

fun truthy :: "jsval \<Rightarrow> bool" where
  "truthy JSNull = False"
| "truthy (JSBool b) = b"
| "truthy (JSString s) = (s \<noteq> [])"

definition js_and :: "jsval \<Rightarrow> jsval \<Rightarrow> jsval" where
  "js_and a b = (if truthy a then b else a)"

definition js_or :: "jsval \<Rightarrow> jsval \<Rightarrow> jsval" where
  "js_or a b = (if truthy a then a else b)"

text \<open>
  The messages pushed on \<open>ticketData.errors\<close> are template strings: one constructor per
  template, carrying the interpolated values. \<open>FeeValidationFailed\<close> is the prefix
  \<open>Fee validation failed:\<close> that the source puts before each fee message.
\<close>

datatype fee_error =
    NegativeTotalFee number
  | TotalFeeTooHigh number
  | InvalidTotalFee number
  | NegativePerContractFee number
  | PerContractFeeTooHigh number
  | InvalidPerContractFee number
  | FeeInconsistency number number number number

datatype ticket_error =
    SideNotFound
  | InvalidSide string
  | PriceNotFound
  | PriceTooLow number
  | PriceTooHigh number
  | InvalidPriceFormat number
  | QuantityNotFound
  | QuantityNotWhole number
  | QuantityTooLow number
  | QuantityTooHigh number
  | InvalidQuantity number
  | FeeValidationFailed fee_error
  | FeeNotFound
  | OrderTotalVeryHigh number

record fee_info =
  totalFee :: "number option"
  perContractFee :: "number option"
  feeSource :: string
  rawText :: "string option"

record validation_summary =
  criticalErrors :: nat
  warningCount :: nat
  totalErrors :: nat
  hasCriticalData :: jsval
  canProceed :: jsval

text \<open>
  The ticket record has the fields that \<open>validateTicketData\<close> reads or writes; the
  timestamp, the parse time and the list of fallbacks of the source are not touched by it.
  \<open>validationSummary\<close> is \<open>None\<close> before the first validation. The side is \<open>null\<close> or a
  string that the source compares with the literals \<open>'YES'\<close> and \<open>'NO'\<close>. The function
  updates the record in place and returns it; the model returns the updated record.
\<close>

record ticket_data =
  side :: "string option"
  price :: "number option"
  quantity :: "number option"
  fee :: "fee_info option"
  isValid :: jsval
  errors :: "ticket_error list"
  validationSummary :: "validation_summary option"

definition sideErrors :: "string option \<Rightarrow> ticket_error list" where
  "sideErrors s =
     (case s of
        None \<Rightarrow> [SideNotFound]
      | Some v \<Rightarrow>
          if v = [] then [SideNotFound]
          else if v \<noteq> ''YES'' \<and> v \<noteq> ''NO'' then [InvalidSide v]
          else [])"

definition priceErrors :: "number option \<Rightarrow> ticket_error list" where
  "priceErrors p =
     (case p of
        None \<Rightarrow> [PriceNotFound]
      | Some v \<Rightarrow>
          if \<not> isValidPrice (Some v) defaultPriceOptions then
            [if v < 1 / 100 then PriceTooLow v
             else if v > 1 then PriceTooHigh v
             else InvalidPriceFormat v]
          else [])"

definition quantityErrors :: "number option \<Rightarrow> ticket_error list" where
  "quantityErrors q =
     (case q of
        None \<Rightarrow> [QuantityNotFound]
      | Some v \<Rightarrow>
          if \<not> isValidQuantity (Some v) defaultQuantityOptions then
            [if \<not> Number_isInteger v then QuantityNotWhole v
             else if v < 1 then QuantityTooLow v
             else if v > 10000 then QuantityTooHigh v
             else InvalidQuantity v]
          else [])"

definition totalFeeErrors :: "fee_info \<Rightarrow> fee_error list" where
  "totalFeeErrors f =
     (case fee_info.totalFee f of
        None \<Rightarrow> []
      | Some v \<Rightarrow>
          if \<not> isValidFee (Some v) defaultFeeOptions then
            [if v < 0 then NegativeTotalFee v
             else if v > 1000 then TotalFeeTooHigh v
             else InvalidTotalFee v]
          else [])"

definition perContractFeeErrors :: "fee_info \<Rightarrow> fee_error list" where
  "perContractFeeErrors f =
     (case fee_info.perContractFee f of
        None \<Rightarrow> []
      | Some v \<Rightarrow>
          if \<not> isValidFee (Some v) defaultFeeOptions then
            [if v < 0 then NegativePerContractFee v
             else if v > 100 then PerContractFeeTooHigh v
             else InvalidPerContractFee v]
          else [])"

definition feeConsistencyErrors :: "fee_info \<Rightarrow> number option \<Rightarrow> fee_error list" where
  "feeConsistencyErrors f q =
     (case (fee_info.totalFee f, fee_info.perContractFee f, q) of
        (Some tf, Some pcf, Some qty) \<Rightarrow>
          let expectedTotal = pcf * qty;
              difference = \<bar>tf - expectedTotal\<bar> in
          if difference > 1 / 100
            then [FeeInconsistency tf pcf qty expectedTotal]
            else []
      | _ \<Rightarrow> [])"

definition feeValidation :: "fee_info option \<Rightarrow> number option \<Rightarrow> ticket_error list \<times> nat" where
  \<comment> \<open>the fee block: the messages it pushes and what it adds to \<open>warningCount\<close>; an
      inconsistency is counted where it is found and again with the other fee messages\<close>
  "feeValidation f q =
     (case f of
        None \<Rightarrow> ([FeeNotFound], 1)
      | Some info \<Rightarrow>
          let inconsistency = feeConsistencyErrors info q;
              feeErrors = totalFeeErrors info @ perContractFeeErrors info @ inconsistency in
          (map FeeValidationFailed feeErrors, length inconsistency + length feeErrors))"

definition orderTotalValidation :: "number option \<Rightarrow> number option \<Rightarrow> ticket_error list" where
  "orderTotalValidation p q =
     (case (p, q) of
        (Some pv, Some qv) \<Rightarrow>
          let totalCost = pv * qv in
          if totalCost > 100000 then [OrderTotalVeryHigh totalCost] else []
      | _ \<Rightarrow> [])"

definition validateTicketData :: "ticket_data \<Rightarrow> ticket_data" where
  "validateTicketData ticketData =
     (let critical = sideErrors (side ticketData) @ priceErrors (price ticketData)
                       @ quantityErrors (quantity ticketData);
          criticalErrorCount = length critical;
          feePart = feeValidation (fee ticketData) (quantity ticketData);
          totalPart = orderTotalValidation (price ticketData) (quantity ticketData);
          allErrors = critical @ fst feePart @ totalPart;
          warnings = snd feePart + length totalPart;
          critData =
            js_and (case side ticketData of None \<Rightarrow> JSNull | Some v \<Rightarrow> JSString v)
              (js_and (JSBool (price ticketData \<noteq> None)) (JSBool (quantity ticketData \<noteq> None)));
          valid = js_and critData (JSBool (criticalErrorCount = 0))
      in ticketData
           \<lparr>errors := allErrors,
            isValid := valid,
            validationSummary := Some
              \<lparr>criticalErrors = criticalErrorCount,
               warningCount = warnings,
               totalErrors = length allErrors,
               hasCriticalData = critData,
               canProceed = js_or valid (js_and critData (JSBool (criticalErrorCount = 0)))\<rparr>\<rparr>)"


section \<open>Ticket subtree, as the quantity fallback and the hash observe it\<close>

text \<open>
  A DOM string is a sequence of UTF-16 code units; \<open>charCodeAt\<close> reads one of them.
  \<open>str\<close> embeds an ASCII literal of the source.
\<close>

type_synonym jsstring = "16 word list"

definition str :: "string \<Rightarrow> jsstring" where
  "str s = map (\<lambda>c. of_nat (of_char c)) s"

definition isWhiteSpace :: "16 word \<Rightarrow> bool" where
  \<comment> \<open>white space and line terminators, the characters \<open>trim\<close> removes and \<open>parseInt\<close> skips\<close>
  "isWhiteSpace c =
     (c \<in> {0x9, 0xA, 0xB, 0xC, 0xD, 0x20, 0xA0, 0x1680, 0x2028, 0x2029, 0x202F, 0x205F,
            0x3000, 0xFEFF}
      \<or> (0x2000 \<le> c \<and> c \<le> 0x200A))"

definition trim :: "jsstring \<Rightarrow> jsstring" where
  "trim s = rev (dropWhile isWhiteSpace (rev (dropWhile isWhiteSpace s)))"

definition isDigit :: "16 word \<Rightarrow> bool" where
  "isDigit c = (0x30 \<le> c \<and> c \<le> 0x39)"

definition digitValue :: "nat \<Rightarrow> 16 word \<Rightarrow> nat option" where
  \<comment> \<open>the value of a character as a digit of the given radix (10 or 16)\<close>
  "digitValue radix c =
     (if isDigit c then Some (unat c - 0x30)
      else if radix = 16 \<and> 0x61 \<le> c \<and> c \<le> 0x66 then Some (unat c - 0x61 + 10)
      else if radix = 16 \<and> 0x41 \<le> c \<and> c \<le> 0x46 then Some (unat c - 0x41 + 10)
      else None)"

fun digitsValue :: "nat \<Rightarrow> nat \<Rightarrow> jsstring \<Rightarrow> nat" where
  \<comment> \<open>the number written by the longest prefix of digits, after the digits read so far\<close>
  "digitsValue radix acc [] = acc"
| "digitsValue radix acc (c # cs) =
     (case digitValue radix c of
        None \<Rightarrow> acc
      | Some d \<Rightarrow> digitsValue radix (acc * radix + d) cs)"

definition parseInt :: "jsstring \<Rightarrow> number option" where
  \<comment> \<open>\<open>parseInt(s)\<close> without a radix argument; \<open>None\<close> is \<open>NaN\<close>\<close>
  "parseInt s =
     (let s1 = dropWhile isWhiteSpace s;
          negative = (s1 \<noteq> [] \<and> hd s1 = 0x2D);
          s2 = (if s1 \<noteq> [] \<and> (hd s1 = 0x2B \<or> hd s1 = 0x2D) then tl s1 else s1);
          hex = (take 2 s2 = str ''0x'' \<or> take 2 s2 = str ''0X'');
          radix = (if hex then 16 else 10);
          s3 = (if hex then drop 2 s2 else s2)
      in case s3 of
           [] \<Rightarrow> None
         | c # cs \<Rightarrow>
             (case digitValue radix c of
                None \<Rightarrow> None
              | Some d \<Rightarrow>
                  let n = of_nat (digitsValue radix 0 s3) in
                  Some (if negative then - n else n)))"

definition firstDigits :: "jsstring \<Rightarrow> jsstring option" where
  \<comment> \<open>\<open>s.match(/(\d+)/)\<close>: the first run of decimal digits, \<open>None\<close> when there is none\<close>
  "firstDigits s =
     (let r = takeWhile isDigit (dropWhile (\<lambda>c. \<not> isDigit c) s) in
      if r = [] then None else Some r)"

datatype control_tag = Input | Select | Textarea

record form_control =
  tag :: control_tag
  type :: jsstring
  name :: jsstring
  elementId :: jsstring
  val :: jsstring
  placeholder :: jsstring
  defaultValue :: jsstring

text \<open>
  The ticket element, reduced to what the two functions below read from it: the matches of
  \<open>querySelectorAll('input, select, textarea')\<close> in document order (\<open>elementId\<close> is the
  property \<open>id\<close>, \<open>val\<close> the property \<open>value\<close>), the \<open>textContent\<close> of each match of
  \<open>button[class*="selected"], button[aria-pressed="true"]\<close>, and the \<open>textContent\<close> of the
  element itself.
\<close>

record ticket_element =
  controls :: "form_control list"
  selectedButtons :: "jsstring list"
  textContent :: jsstring


section \<open>Quantity fallback (content.js, parseQuantityFallback3 and its callers)\<close>

definition placeholderQuantity :: "form_control \<Rightarrow> number option" where
  "placeholderQuantity input =
     (if placeholder input = [] then None
      else case firstDigits (placeholder input) of
             None \<Rightarrow> None
           | Some digits \<Rightarrow>
               let quantity = parseInt digits in
               if isValidQuantity quantity defaultQuantityOptions then quantity else None)"

definition defaultValueQuantity :: "form_control \<Rightarrow> number option" where
  "defaultValueQuantity input =
     (if defaultValue input = [] then None
      else let quantity = parseInt (defaultValue input) in
           if isValidQuantity quantity defaultQuantityOptions then quantity else None)"

fun scanInputDefaults :: "form_control list \<Rightarrow> number option" where
  \<comment> \<open>the \<open>for\<close> loop over the inputs: the first quantity it returns, if any\<close>
  "scanInputDefaults [] = None"
| "scanInputDefaults (input # rest) =
     (case placeholderQuantity input of
        Some q \<Rightarrow> Some q
      | None \<Rightarrow>
          (case defaultValueQuantity input of
             Some q \<Rightarrow> Some q
           | None \<Rightarrow> scanInputDefaults rest))"

definition parseQuantityFallback3 :: "ticket_element \<Rightarrow> number option" where
  "parseQuantityFallback3 ticketElement =
     (case scanInputDefaults (filter (\<lambda>c. tag c = Input) (controls ticketElement)) of
        Some q \<Rightarrow> Some q
      | None \<Rightarrow> Some 1)"

text \<open>
  \<open>parseQuantityWithFallback\<close> tries the primary parser and the first two fallbacks before
  the third. Those three scan the DOM with selectors, labels and scores; their results
  enter the model as parameters (\<open>None\<close> is \<open>null\<close>), so that whatever they return is covered.
  The ticket element is an element attached to the document: for anything else
  \<open>validateElementAccess\<close> throws and the function returns \<open>null\<close> from its \<open>catch\<close>, which
  is outside the model, as is an exception inside \<open>safeExecute\<close>.
\<close>

definition parseQuantityWithFallback ::
    "number option \<Rightarrow> number option \<Rightarrow> number option \<Rightarrow> ticket_element \<Rightarrow> number option" where
  "parseQuantityWithFallback primaryResult fallback1Result fallback2Result ticketElement =
     (if primaryResult \<noteq> None \<and> isValidQuantity primaryResult defaultQuantityOptions
        then primaryResult
      else if fallback1Result \<noteq> None then fallback1Result
      else if fallback2Result \<noteq> None then fallback2Result
      else let fallback3Result = parseQuantityFallback3 ticketElement in
           if fallback3Result \<noteq> None then fallback3Result else None)"

text \<open>
  Recovery strategy 4 of \<open>attemptAdvancedRecovery\<close>: the default quantity is used when the
  quantity is missing and side and price are there (each tested for truthiness). The
  result is the updated record and the strategy names pushed.
\<close>

definition numberTruthy :: "number option \<Rightarrow> bool" where
  "numberTruthy v = (case v of None \<Rightarrow> False | Some x \<Rightarrow> x \<noteq> 0)"

definition stringTruthy :: "string option \<Rightarrow> bool" where
  "stringTruthy v = (case v of None \<Rightarrow> False | Some s \<Rightarrow> s \<noteq> [])"

definition recoveryStrategy4 :: "ticket_data \<Rightarrow> ticket_data \<times> string list" where
  "recoveryStrategy4 recoveredData =
     (if \<not> numberTruthy (quantity recoveredData) \<and> stringTruthy (side recoveredData)
          \<and> numberTruthy (price recoveredData)
      then (recoveredData\<lparr>quantity := Some 1\<rparr>, [''default-quantity''])
      else (recoveredData, []))"


section \<open>Ticket hash and lifecycle (content.js, generateTicketHash and processOrderTicket)\<close>

text \<open>
  The script declares \<open>generateTicketHash\<close>, \<open>onTicketOpened\<close>, \<open>onTicketClosed\<close> and
  \<open>onTicketContentChanged\<close> more than once; the last declaration of each is the one that
  runs, and the one modelled. The hash loop computes in 32-bit integers:
  \<open>hash = ((hash << 5) - hash) + char; hash = hash & hash\<close>.
\<close>

definition hashStep :: "32 word \<Rightarrow> 16 word \<Rightarrow> 32 word" where
  "hashStep hash c = (push_bit 5 hash - hash) + ucast c"

fun natToString :: "nat \<Rightarrow> string" where
  "natToString n =
     (if n < 10 then [char_of (n + 48)]
      else natToString (n div 10) @ [char_of (n mod 10 + 48)])"

declare natToString.simps [simp del]

definition intToString :: "int \<Rightarrow> jsstring" where
  "intToString i =
     str (if i < 0 then CHR ''-'' # natToString (nat (- i)) else natToString (nat i))"

definition hashKey :: "form_control \<Rightarrow> jsstring" where
  \<comment> \<open>\<open>input.name || input.id\<close>\<close>
  "hashKey input = (if name input \<noteq> [] then name input else elementId input)"

definition visibleControls :: "ticket_element \<Rightarrow> form_control list" where
  "visibleControls ticketElement =
     filter (\<lambda>input. type input \<noteq> str ''hidden'') (controls ticketElement)"

definition hashContent :: "ticket_element \<Rightarrow> jsstring" where
  "hashContent ticketElement =
     concat (map (\<lambda>input. hashKey input @ str '':'' @ val input @ str ''|'')
                 (visibleControls ticketElement))
     @ concat (map (\<lambda>button. str ''btn:'' @ trim button @ str ''|'')
                   (selectedButtons ticketElement))
     @ take 500 (trim (textContent ticketElement))"

definition generateTicketHash :: "ticket_element option \<Rightarrow> jsstring option" where
  "generateTicketHash ticketElement =
     (case ticketElement of
        None \<Rightarrow> None
      | Some el \<Rightarrow> Some (intToString (sint (foldl hashStep 0 (hashContent el)))))"

record ticket_state =
  isOpen :: bool
  ticketElement :: "ticket_element option"
  lastTicketHash :: "jsstring option"

datatype ticket_event = TicketOpened | TicketClosed | TicketContentChanged | NoTransition

definition onTicketOpened :: "ticket_state \<Rightarrow> ticket_element \<Rightarrow> ticket_state" where
  "onTicketOpened st el =
     st\<lparr>isOpen := True, ticketElement := Some el,
        lastTicketHash := generateTicketHash (Some el)\<rparr>"

definition onTicketClosed :: "ticket_state \<Rightarrow> ticket_state" where
  "onTicketClosed st = st\<lparr>isOpen := False, ticketElement := None, lastTicketHash := None\<rparr>"

definition onTicketContentChanged :: "ticket_state \<Rightarrow> ticket_element \<Rightarrow> ticket_state" where
  "onTicketContentChanged st el = st\<lparr>lastTicketHash := generateTicketHash (Some el)\<rparr>"

text \<open>
  One run of \<open>processOrderTicket\<close>. The ticket that \<open>detectOrderTicket\<close> finds (or
  \<open>None\<close>) is a parameter; the result is the new state and the transition taken. The
  parsing and the display updates that the three handlers start are outside the model.
\<close>

definition processOrderTicket ::
    "ticket_state \<Rightarrow> ticket_element option \<Rightarrow> ticket_state \<times> ticket_event" where
  "processOrderTicket st currentTicket =
     (case currentTicket of
        Some el \<Rightarrow>
          if \<not> isOpen st then (onTicketOpened st el, TicketOpened)
          else if generateTicketHash (Some el) \<noteq> lastTicketHash st
            then (onTicketContentChanged st el, TicketContentChanged)
          else (st, NoTransition)
      | None \<Rightarrow>
          if isOpen st then (onTicketClosed st, TicketClosed)
          else (st, NoTransition))"

section \<open>Rounding\<close>

lemma Math_round_eq_round: "Math_round x = round x"
  by (simp add: Math_round_def round_def)

lemma Math_round_mono: "x \<le> y \<Longrightarrow> Math_round x \<le> Math_round y"
  by (simp add: Math_round_def floor_mono)

lemma Math_round_of_int: "Math_round (of_int k) = k"
  by (simp add: Math_round_def) linarith

lemma Math_round_close: "\<bar>of_int (Math_round x) - x\<bar> \<le> 1 / 2"
  unfolding Math_round_def by linarith

text \<open>
  Rounding a negated number is not the negation of rounding it: a tie goes up in both
  cases. The two agree whenever the number is not halfway between two integers.
\<close>

lemma Math_round_uminus: "Math_round (- x) = - \<lceil>x - 1 / 2\<rceil>"
  by (simp add: Math_round_def ceiling_def)

lemma Math_round_uminus_no_tie:
  assumes "x - of_int \<lfloor>x\<rfloor> \<noteq> 1 / 2"
  shows "Math_round (- x) = - round x"
proof -
  have "\<lceil>x - 1 / 2\<rceil> = \<lfloor>x + 1 / 2\<rfloor>"
  proof (rule ceiling_unique)
    have "x + 1 / 2 \<noteq> of_int \<lfloor>x + 1 / 2\<rfloor>"
    proof
      assume e: "x + 1 / 2 = of_int \<lfloor>x + 1 / 2\<rfloor>"
      then have "x = of_int (\<lfloor>x + 1 / 2\<rfloor> - 1) + 1 / 2" by simp
      moreover have "\<lfloor>of_int (\<lfloor>x + 1 / 2\<rfloor> - 1) + (1 / 2 :: rat)\<rfloor> = \<lfloor>x + 1 / 2\<rfloor> - 1"
        by (simp add: floor_eq_iff)
      ultimately have "\<lfloor>x\<rfloor> = \<lfloor>x + 1 / 2\<rfloor> - 1" by simp
      then have "x - of_int \<lfloor>x\<rfloor> = 1 / 2" using e by simp
      then show False using assms by simp
    qed
    moreover have "of_int \<lfloor>x + 1 / 2\<rfloor> \<le> x + 1 / 2" by (rule of_int_floor_le)
    ultimately show "of_int \<lfloor>x + 1 / 2\<rfloor> - 1 < x - 1 / 2" by linarith
    show "x - 1 / 2 \<le> of_int \<lfloor>x + 1 / 2\<rfloor>" by linarith
  qed
  then show ?thesis by (simp add: Math_round_uminus round_def)
qed


section \<open>Probability to American odds\<close>

lemma probabilityToAmericanOdds_low:
  assumes "0 < p" "p < 1 / 2" "\<not> \<bar>p - 1 / 2\<bar> < 1 / 1000"
  shows "probabilityToAmericanOdds p = Some (Math_round (100 * (1 - p) / p))"
  using assms by (simp add: probabilityToAmericanOdds_def)

lemma probabilityToAmericanOdds_high:
  assumes "1 / 2 < p" "p < 1" "\<not> \<bar>p - 1 / 2\<bar> < 1 / 1000"
  shows "probabilityToAmericanOdds p = Some (Math_round (- (100 * p / (1 - p))))"
  using assms by (simp add: probabilityToAmericanOdds_def)




text \<open>
  C7: over \<open>(0,1)\<close> the odds do not increase as the probability grows, in the order of the
  signed integers, and the value at \<open>p = 0.5\<close> is \<open>+100\<close>.
\<close>

theorem probabilityToAmericanOdds_antimono:
  assumes "0 < p1" and "p1 \<le> p2" and "p2 < 1"
  shows "(\<exists>a b. probabilityToAmericanOdds p1 = Some a \<and> probabilityToAmericanOdds p2 = Some b
            \<and> b \<le> a)
         \<and> probabilityToAmericanOdds (1 / 2) = Some 100"
proof -
  define raw :: "rat \<Rightarrow> rat" where
    "raw p = (if \<bar>p - 1 / 2\<bar> < 1 / 1000 then 100
              else if p < 1 / 2 then 100 * (1 - p) / p
              else - 100 * p / (1 - p))" for p
  have low: "100 \<le> 100 * (1 - p) / p" if "0 < p" "p < 1 / 2" for p :: rat
    using that by (simp add: field_simps)
  have high: "- 100 * p / (1 - p) \<le> 100" if "1 / 2 \<le> p" "p < 1" for p :: rat
    using that by (simp add: field_simps)
  have dlow: "100 * (1 - p2) / p2 \<le> 100 * (1 - p1) / p1"
    using assms by (simp add: field_simps)
  have dhigh: "- 100 * p2 / (1 - p2) \<le> - 100 * p1 / (1 - p1)"
    using assms by (simp add: field_simps)
  have cross: "- 100 * p2 / (1 - p2) \<le> 100 * (1 - p1) / p1" if "1 / 2 \<le> p2" "p1 < 1 / 2"
    using high[of p2] low[of p1] that assms by linarith
  have "raw p2 \<le> raw p1"
    unfolding raw_def
    using assms low[of p1] high[of p2] dlow dhigh cross
    by (auto simp: abs_less_iff not_less)
  then have "Math_round (raw p2) \<le> Math_round (raw p1)" by (rule Math_round_mono)
  moreover have "probabilityToAmericanOdds p1 = Some (Math_round (raw p1))"
    using assms by (simp add: probabilityToAmericanOdds_def raw_def)
  moreover have "probabilityToAmericanOdds p2 = Some (Math_round (raw p2))"
    using assms by (simp add: probabilityToAmericanOdds_def raw_def)
  moreover have "probabilityToAmericanOdds (1 / 2) = Some 100"
    by (simp add: probabilityToAmericanOdds_def Math_round_def floor_eq_iff)
  ultimately show ?thesis by simp
qed

theorem probabilityToAmericanOdds_antimono_witness:
  "(0 :: rat) < 1 / 4 \<and> (1 / 4 :: rat) \<le> 3 / 4 \<and> (3 / 4 :: rat) < 1
   \<and> probabilityToAmericanOdds (1 / 4) = Some 300
   \<and> probabilityToAmericanOdds (3 / 4) = Some (- 300)
   \<and> probabilityToAmericanOdds (1 / 2) = Some 100"
  using probabilityToAmericanOdds_antimono [of "1 / 4" "3 / 4"]
  by (simp add: probabilityToAmericanOdds_def Math_round_def floor_eq_iff)


section \<open>Round trip through the two conversions\<close>




section \<open>After-fee odds\<close>

lemma intermediateCheck_unprofitable:
  fixes price fee :: number
  assumes "1 \<le> price + fee"
  shows "intermediateCheck v price fee (price + fee) (1 - (price + fee)) \<noteq> None"
  using assms by (simp add: intermediateCheck_def validateCalculatedRisk_def)

lemma intermediateCheck_profitable:
  fixes price fee :: number
  assumes "0 < price" "0 \<le> fee" "price + fee < 1"
  shows "intermediateCheck v price fee (price + fee) (1 - (price + fee)) = None"
  using assms
  by (simp add: intermediateCheck_def validateCalculatedRisk_def validateCalculatedProfit_def)

text \<open>
  C1: with a price in \<open>(0, 1]\<close>, a fee that is not negative and \<open>price + fee \<ge> 1\<close>,
  \<open>calculateAfterFeeOdds\<close> returns no result, whatever the options say about validation.
\<close>

theorem calculateAfterFeeOdds_unprofitable:
  fixes price feePerContract :: number
  assumes "0 < price" and "price \<le> 1" and "0 \<le> feePerContract"
    and "1 \<le> price + feePerContract"
  shows "snd (calculateAfterFeeOdds price feePerContract options) = None"
proof -
  obtain w where
    "intermediateCheck (enableValidation options \<noteq> Some False) price feePerContract
       (price + feePerContract) (1 - (price + feePerContract)) = Some w"
    using intermediateCheck_unprofitable [OF assms(4)] by blast
  then show ?thesis
    using assms by (simp add: calculateAfterFeeOdds_def Let_def)
qed

theorem calculateAfterFeeOdds_unprofitable_witness:
  "(0 :: rat) < 98 / 100 \<and> (98 / 100 :: rat) \<le> 1 \<and> (0 :: rat) \<le> 3 / 100
   \<and> (1 :: rat) \<le> 98 / 100 + 3 / 100
   \<and> snd (calculateAfterFeeOdds (98 / 100) (3 / 100) defaultOptions) = None
   \<and> snd (calculateAfterFeeOdds (98 / 100) (3 / 100) \<lparr>enableValidation = Some False\<rparr>) = None"
  using calculateAfterFeeOdds_unprofitable [of "98 / 100" "3 / 100" defaultOptions]
    calculateAfterFeeOdds_unprofitable [of "98 / 100" "3 / 100" "\<lparr>enableValidation = Some False\<rparr>"]
  by simp

lemma validateAfterFeeOdds_rounded:
  assumes "raw = (if profit \<ge> risk then 100 * (profit / risk) else - 100 * (risk / profit))"
  shows "validateAfterFeeOdds risk profit (Math_round raw) =
           (if \<bar>Math_round raw\<bar> > 10000 then Invalid (OddsOutOfRange (Math_round raw))
            else Valid)"
proof -
  have "\<not> \<bar>of_int (Math_round raw) - raw\<bar> > 3 / 2"
    using Math_round_close [of raw] by linarith
  then show ?thesis
    unfolding validateAfterFeeOdds_def Let_def assms [symmetric] by simp
qed

lemma calculateAfterFeeOdds_unvalidated:
  fixes price fee :: number
  assumes "0 < price" "price \<le> 1" "0 \<le> fee" "price + fee < 1"
  shows "calculateAfterFeeOdds price fee \<lparr>enableValidation = Some False\<rparr> =
     ([], Some (Math_round (if 1 - (price + fee) \<ge> price + fee
                   then 100 * ((1 - (price + fee)) / (price + fee))
                   else - 100 * ((price + fee) / (1 - (price + fee))))))"
  using assms intermediateCheck_profitable [OF assms(1,3,4), of False]
  by (simp add: calculateAfterFeeOdds_def Let_def)

lemma calculateAfterFeeOdds_validated:
  fixes price fee :: number
  assumes "0 < price" "price \<le> 1" "0 \<le> fee" "price + fee < 1"
  defines "raw \<equiv> (if 1 - (price + fee) \<ge> price + fee
                   then 100 * ((1 - (price + fee)) / (price + fee))
                   else - 100 * ((price + fee) / (1 - (price + fee))))"
  shows "snd (calculateAfterFeeOdds price fee defaultOptions) =
     (if \<bar>Math_round raw\<bar> \<le> 10000 then Some (Math_round raw) else None)"
proof -
  have v: "validateAfterFeeOdds (price + fee) (1 - (price + fee)) (Math_round raw) =
           (if \<bar>Math_round raw\<bar> > 10000 then Invalid (OddsOutOfRange (Math_round raw))
            else Valid)"
    by (rule validateAfterFeeOdds_rounded) (simp add: raw_def)
  show ?thesis
    using assms(1-4) intermediateCheck_profitable [OF assms(1,3,4), of True] v
    unfolding raw_def
    by (simp add: calculateAfterFeeOdds_def defaultOptions_def Let_def)
qed





section \<open>Fee estimate\<close>




section \<open>Numeric validation\<close>

lemma Number_isInteger_of_int: "Number_isInteger (of_int k)"
  by (simp add: Number_isInteger_def)

lemma Number_isInteger_obtain:
  assumes "Number_isInteger x"
  obtains k where "x = of_int k"
  using assms unfolding Number_isInteger_def by metis

lemma decimalPlacesUpTo_le:
  "Number_isInteger (x * 10 ^ n) \<Longrightarrow> decimalPlacesUpTo n x \<le> n"
proof (induction n arbitrary: x)
  case 0
  then show ?case by simp
next
  case (Suc n)
  have "x * 10 * 10 ^ n = x * 10 ^ Suc n" by simp
  with Suc.prems have "Number_isInteger (x * 10 * 10 ^ n)" by (simp only:)
  then have "decimalPlacesUpTo n (x * 10) \<le> n" by (rule Suc.IH)
  then show ?case by simp
qed

lemma decimalPlacesUpTo_rounded:
  "decimalPlacesUpTo n (of_int k / 10 ^ n) \<le> n"
  by (rule decimalPlacesUpTo_le) (simp add: Number_isInteger_of_int)

text \<open>
  What the validators accept, in closed form: the value is rounded first (to four
  decimals for a price, to a whole number for a quantity) and the rounded value is tested
  against the bounds.
\<close>

lemma isValidPrice_iff:
  "isValidPrice (Some p) defaultPriceOptions
     \<longleftrightarrow> 100 \<le> Math_round (p * 10000) \<and> Math_round (p * 10000) \<le> 10000"
proof -
  have dp: "\<not> 4 < decimalPlacesUpTo 4 (of_int (Math_round (p * 10000)) / 10000)"
    using decimalPlacesUpTo_rounded [of 4 "Math_round (p * 10000)"] by simp
  have neg: "Math_round (p * 10000) \<le> 0" if "p \<le> 0"
    using that unfolding Math_round_def by (simp add: floor_le_iff) 
  show ?thesis
  proof (cases "p \<le> 0")
    case True
    with neg show ?thesis
      by (auto simp: isValidPrice_def sanitizeNumericValue_def defaultPriceOptions_def)
  next
    case False
    then show ?thesis using dp
      by (auto simp: isValidPrice_def sanitizeNumericValue_def defaultPriceOptions_def
          Let_def field_simps)
  qed
qed

lemma isValidQuantity_iff:
  "isValidQuantity (Some q) defaultQuantityOptions
     \<longleftrightarrow> 1 \<le> Math_round q \<and> Math_round q \<le> 10000"
proof -
  have neg: "Math_round q \<le> 0" if "q \<le> 0"
    using that unfolding Math_round_def by (simp add: floor_le_iff)
  have big: "of_int (Math_round q) \<le> MAX_SAFE_INTEGER" if "Math_round q \<le> 10000"
  proof -
    have "(of_int (Math_round q) :: rat) \<le> 10000" using that by linarith
    then show ?thesis by (simp add: MAX_SAFE_INTEGER_def)
  qed
  show ?thesis
  proof (cases "q \<le> 0")
    case True
    with neg show ?thesis
      by (auto simp: isValidQuantity_def sanitizeNumericValue_def defaultQuantityOptions_def)
  next
    case False
    then show ?thesis using big
      by (auto simp: isValidQuantity_def sanitizeNumericValue_def defaultQuantityOptions_def
          Let_def Number_isInteger_of_int not_less)
  qed
qed

lemma isValidPrice_four_decimals:
  assumes "Number_isInteger (p * 10000)"
  shows "isValidPrice (Some p) defaultPriceOptions \<longleftrightarrow> 1 / 100 \<le> p \<and> p \<le> 1"
proof -
  obtain k where k: "p * 10000 = of_int k"
    using assms by (rule Number_isInteger_obtain)
  then have p: "p = of_int k / 10000" by simp
  have "Math_round (p * 10000) = k" by (simp add: k Math_round_of_int)
  then show ?thesis
    by (simp add: isValidPrice_iff p field_simps)
qed

lemma isValidQuantity_whole:
  assumes "Number_isInteger q"
  shows "isValidQuantity (Some q) defaultQuantityOptions \<longleftrightarrow> 1 \<le> q \<and> q \<le> 10000"
proof -
  obtain k where k: "q = of_int k"
    using assms by (rule Number_isInteger_obtain)
  show ?thesis
    by (simp add: isValidQuantity_iff k Math_round_of_int)
qed

lemma isValidPrice_in_range:
  assumes "1 / 100 \<le> p" and "p \<le> 1"
  shows "isValidPrice (Some p) defaultPriceOptions"
proof -
  have "100 \<le> p * 10000" "p * 10000 \<le> 10000" using assms by simp_all
  then have "100 \<le> Math_round (p * 10000)" "Math_round (p * 10000) \<le> 10000"
    unfolding Math_round_def by linarith+
  then show ?thesis by (simp add: isValidPrice_iff)
qed

section \<open>Ticket validation\<close>

lemma sideErrors_empty_iff: "sideErrors s = [] \<longleftrightarrow> s = Some ''YES'' \<or> s = Some ''NO''"
  by (auto simp: sideErrors_def split: option.splits)

lemma priceErrors_empty_iff:
  "priceErrors p = [] \<longleftrightarrow> (\<exists>v. p = Some v \<and> isValidPrice (Some v) defaultPriceOptions)"
  by (auto simp: priceErrors_def split: option.splits)

lemma quantityErrors_empty_iff:
  "quantityErrors q = [] \<longleftrightarrow> (\<exists>v. q = Some v \<and> isValidQuantity (Some v) defaultQuantityOptions)"
  by (auto simp: quantityErrors_def split: option.splits)

text \<open>
  The value stored in \<open>isValid\<close>: the side itself when the side is \<open>null\<close> or empty, a
  boolean otherwise. \<open>canProceed\<close> always holds the same value, and neither depends on the
  fee.
\<close>

lemma validateTicketData_isValid:
  "isValid (validateTicketData t) =
     (case side t of
        None \<Rightarrow> JSNull
      | Some s \<Rightarrow>
          if s = [] then JSString []
          else JSBool (sideErrors (side t) = [] \<and> priceErrors (price t) = []
                       \<and> quantityErrors (quantity t) = []))"
proof (cases "side t")
  case None
  then show ?thesis by (simp add: validateTicketData_def Let_def js_and_def)
next
  case (Some s)
  have pe: "price t = None \<Longrightarrow> priceErrors (price t) \<noteq> []"
    by (simp add: priceErrors_def)
  have qe: "quantity t = None \<Longrightarrow> quantityErrors (quantity t) \<noteq> []"
    by (simp add: quantityErrors_def)
  show ?thesis using Some pe qe
    by (auto simp: validateTicketData_def Let_def js_and_def)
qed

lemma validateTicketData_canProceed:
  "\<exists>s. validationSummary (validateTicketData t) = Some s
       \<and> canProceed s = isValid (validateTicketData t)"
  by (simp add: validateTicketData_def Let_def js_and_def js_or_def)

lemma validateTicketData_isValid_true_iff:
  "isValid (validateTicketData t) = JSBool True \<longleftrightarrow>
     (side t = Some ''YES'' \<or> side t = Some ''NO'')
     \<and> (\<exists>p. price t = Some p \<and> isValidPrice (Some p) defaultPriceOptions)
     \<and> (\<exists>q. quantity t = Some q \<and> isValidQuantity (Some q) defaultQuantityOptions)"
proof -
  have "isValid (validateTicketData t) = JSBool True \<longleftrightarrow>
          sideErrors (side t) = [] \<and> priceErrors (price t) = []
          \<and> quantityErrors (quantity t) = []"
    by (auto simp: validateTicketData_isValid sideErrors_def split: option.splits)
  then show ?thesis
    by (simp only: sideErrors_empty_iff priceErrors_empty_iff quantityErrors_empty_iff)
qed

text \<open>
  C5, as the claim states it, fails in two places. A price of 0.00996 is below 0.01, yet
  \<open>isValidPrice\<close> rounds it to 0.0100 before the range test and the ticket is valid. And a
  ticket without a side gets \<open>isValid\<close> and \<open>canProceed\<close> equal to \<open>null\<close>, the value of the
  side, not the boolean \<open>false\<close>.
\<close>

theorem validateTicketData_counterexample:
  "\<not> (1 / 100 :: rat) \<le> 249 / 25000
   \<and> isValid (validateTicketData
        \<lparr>side = Some ''YES'', price = Some (249 / 25000), quantity = Some 10, fee = None,
         isValid = JSBool False, errors = [], validationSummary = None\<rparr>) = JSBool True
   \<and> isValid (validateTicketData
        \<lparr>side = None, price = Some (1 / 2), quantity = Some 10, fee = None,
         isValid = JSBool False, errors = [], validationSummary = None\<rparr>) = JSNull
   \<and> map_option canProceed (validationSummary (validateTicketData
        \<lparr>side = None, price = Some (1 / 2), quantity = Some 10, fee = None,
         isValid = JSBool False, errors = [], validationSummary = None\<rparr>)) = Some JSNull
   \<and> JSNull \<noteq> JSBool False"
proof -
  have r: "Math_round (498 / 5) = 100" "Math_round 10 = 10"
    by (simp_all add: Math_round_def floor_eq_iff)
  have p: "isValidPrice (Some (249 / 25000)) defaultPriceOptions"
    by (simp add: isValidPrice_iff r)
  have q: "isValidQuantity (Some 10) defaultQuantityOptions"
    by (simp add: isValidQuantity_iff r)
  have "isValid (validateTicketData
        \<lparr>side = Some ''YES'', price = Some (249 / 25000), quantity = Some 10, fee = None,
         isValid = JSBool False, errors = [], validationSummary = None\<rparr>) = JSBool True"
    unfolding validateTicketData_isValid_true_iff
    using p q by (intro conjI exI [of _ "249 / 25000"] exI [of _ 10]) simp_all
  moreover have "isValid (validateTicketData
        \<lparr>side = None, price = Some (1 / 2), quantity = Some 10, fee = None,
         isValid = JSBool False, errors = [], validationSummary = None\<rparr>) = JSNull"
    by (simp add: validateTicketData_isValid)
  moreover have "map_option canProceed (validationSummary (validateTicketData
        \<lparr>side = None, price = Some (1 / 2), quantity = Some 10, fee = None,
         isValid = JSBool False, errors = [], validationSummary = None\<rparr>)) = Some JSNull"
    by (simp add: validateTicketData_def Let_def js_and_def js_or_def)
  ultimately show ?thesis by simp
qed

text \<open>
  C5 (amended): for every ticket whose price, when present, has at most four decimal places
  and whose quantity, when present, is a whole number, \<open>isValid\<close> is \<open>true\<close> exactly when the
  side is \<open>YES\<close> or \<open>NO\<close>, the price is present and in \<open>[0.01, 1.00]\<close>, and the quantity is
  present and in \<open>[1, 10000]\<close>; \<open>validationSummary.canProceed\<close> always holds the same value
  as \<open>isValid\<close>, whatever the fee; and a ticket without a side gets \<open>null\<close> in both, which
  is falsy.
\<close>

theorem validateTicketData_isValid_iff:
  assumes "\<forall>p. price t = Some p \<longrightarrow> Number_isInteger (p * 10000)"
    and "\<forall>q. quantity t = Some q \<longrightarrow> Number_isInteger q"
  shows "(isValid (validateTicketData t) = JSBool True \<longleftrightarrow>
            (side t = Some ''YES'' \<or> side t = Some ''NO'')
            \<and> (\<exists>p. price t = Some p \<and> 1 / 100 \<le> p \<and> p \<le> 1)
            \<and> (\<exists>q. quantity t = Some q \<and> 1 \<le> q \<and> q \<le> 10000))
         \<and> (\<exists>s. validationSummary (validateTicketData t) = Some s
                \<and> canProceed s = isValid (validateTicketData t))
         \<and> (side t = None \<longrightarrow>
              isValid (validateTicketData t) = JSNull
              \<and> \<not> truthy (isValid (validateTicketData t)))"
proof (intro conjI impI)
  have p: "(\<exists>p. price t = Some p \<and> isValidPrice (Some p) defaultPriceOptions)
             \<longleftrightarrow> (\<exists>p. price t = Some p \<and> 1 / 100 \<le> p \<and> p \<le> 1)"
    using assms(1) isValidPrice_four_decimals by blast
  have q: "(\<exists>q. quantity t = Some q \<and> isValidQuantity (Some q) defaultQuantityOptions)
             \<longleftrightarrow> (\<exists>q. quantity t = Some q \<and> 1 \<le> q \<and> q \<le> 10000)"
    using assms(2) isValidQuantity_whole by blast
  show "isValid (validateTicketData t) = JSBool True \<longleftrightarrow>
            (side t = Some ''YES'' \<or> side t = Some ''NO'')
            \<and> (\<exists>p. price t = Some p \<and> 1 / 100 \<le> p \<and> p \<le> 1)
            \<and> (\<exists>q. quantity t = Some q \<and> 1 \<le> q \<and> q \<le> 10000)"
    by (simp only: validateTicketData_isValid_true_iff p q)
next
  show "\<exists>s. validationSummary (validateTicketData t) = Some s
           \<and> canProceed s = isValid (validateTicketData t)"
    by (rule validateTicketData_canProceed)
next
  assume "side t = None"
  then show "isValid (validateTicketData t) = JSNull"
    by (simp add: validateTicketData_isValid)
next
  assume "side t = None"
  then show "\<not> truthy (isValid (validateTicketData t))"
    by (simp add: validateTicketData_isValid)
qed

theorem validateTicketData_isValid_iff_witness:
  "Number_isInteger (45 / 100 * 10000) \<and> Number_isInteger 10
   \<and> isValid (validateTicketData
        \<lparr>side = Some ''NO'', price = Some (45 / 100), quantity = Some 10, fee = None,
         isValid = JSBool False, errors = [], validationSummary = None\<rparr>) = JSBool True
   \<and> isValid (validateTicketData
        \<lparr>side = None, price = Some (45 / 100), quantity = Some 10, fee = None,
         isValid = JSBool False, errors = [], validationSummary = None\<rparr>) = JSNull"
proof -
  let ?t = "\<lparr>side = Some ''NO'', price = Some (45 / 100 :: rat), quantity = Some (10 :: rat),
             fee = None, isValid = JSBool False, errors = [], validationSummary = None\<rparr>"
  let ?u = "\<lparr>side = None, price = Some (45 / 100 :: rat), quantity = Some (10 :: rat),
             fee = None, isValid = JSBool False, errors = [], validationSummary = None\<rparr>"
  have i: "Number_isInteger (45 / 100 * 10000)" "Number_isInteger 10"
    by (simp_all add: Number_isInteger_def)
  have four: "Number_isInteger (p * 10000)" if "Some (45 / 100) = Some p" for p :: rat
  proof -
    from that have e: "p = 45 / 100" by simp
    show ?thesis by (subst e) (rule i(1))
  qed
  have pt: "\<forall>p. price ?t = Some p \<longrightarrow> Number_isInteger (p * 10000)"
    using four by (simp only: ticket_data.simps) blast
  have qt: "\<forall>q. quantity ?t = Some q \<longrightarrow> Number_isInteger q"
    using i(2) by auto
  have pu: "\<forall>p. price ?u = Some p \<longrightarrow> Number_isInteger (p * 10000)"
    using four by (simp only: ticket_data.simps) blast
  have qu: "\<forall>q. quantity ?u = Some q \<longrightarrow> Number_isInteger q"
    using i(2) by auto
  have st: "side ?t = Some ''NO''" by simp
  have rp: "\<exists>p. price ?t = Some p \<and> 1 / 100 \<le> p \<and> p \<le> 1"
    by (rule exI [of _ "45 / 100"]) simp
  have rq: "\<exists>q. quantity ?t = Some q \<and> 1 \<le> q \<and> q \<le> 10000"
    by (rule exI [of _ 10]) simp
  have su: "side ?u = None" by simp
  have "isValid (validateTicketData ?t) = JSBool True"
    using validateTicketData_isValid_iff [OF pt qt] st rp rq by blast
  moreover have "isValid (validateTicketData ?u) = JSNull"
    using validateTicketData_isValid_iff [OF pu qu] su by blast
  ultimately show ?thesis using i by blast
qed

text \<open>
  C8: when the total fee, the per-contract fee and the quantity are all present and
  \<open>|totalFee - perContractFee * quantity| > 0.01\<close>, the validation records the
  inconsistency message and the warning count grows (the source counts the inconsistency
  where it finds it and once more with the fee messages); with a valid side, price and
  quantity, \<open>isValid\<close> and \<open>canProceed\<close> are \<open>true\<close> all the same.
\<close>

theorem validateTicketData_fee_mismatch:
  assumes "fee t = Some f"
    and "fee_info.totalFee f = Some tf" and "fee_info.perContractFee f = Some pcf"
    and "quantity t = Some q"
    and "\<bar>tf - pcf * q\<bar> > 1 / 100"
  shows "FeeValidationFailed (FeeInconsistency tf pcf q (pcf * q))
           \<in> set (errors (validateTicketData t))
         \<and> (\<exists>s. validationSummary (validateTicketData t) = Some s
                \<and> warningCount s = 2 + length (totalFeeErrors f) + length (perContractFeeErrors f)
                                     + length (orderTotalValidation (price t) (quantity t))
                \<and> warningCount s > 0
                \<and> ((side t = Some ''YES'' \<or> side t = Some ''NO'')
                     \<and> (\<exists>p. price t = Some p \<and> isValidPrice (Some p) defaultPriceOptions)
                     \<and> isValidQuantity (Some q) defaultQuantityOptions
                    \<longrightarrow> isValid (validateTicketData t) = JSBool True
                        \<and> canProceed s = JSBool True))"
proof -
  have c: "feeConsistencyErrors f (quantity t) = [FeeInconsistency tf pcf q (pcf * q)]"
    using assms by (simp add: feeConsistencyErrors_def Let_def)
  have fv: "feeValidation (fee t) (quantity t) =
              (map FeeValidationFailed
                 (totalFeeErrors f @ perContractFeeErrors f @ [FeeInconsistency tf pcf q (pcf * q)]),
               2 + length (totalFeeErrors f) + length (perContractFeeErrors f))"
    using assms(1) c by (simp add: feeValidation_def Let_def)
  have e: "FeeValidationFailed (FeeInconsistency tf pcf q (pcf * q))
             \<in> set (errors (validateTicketData t))"
    by (simp add: validateTicketData_def Let_def fv)
  obtain s where s: "validationSummary (validateTicketData t) = Some s"
    and cp: "canProceed s = isValid (validateTicketData t)"
    using validateTicketData_canProceed by blast
  have w: "warningCount s = 2 + length (totalFeeErrors f) + length (perContractFeeErrors f)
                              + length (orderTotalValidation (price t) (quantity t))"
    using s by (auto simp: validateTicketData_def Let_def fv)
  have v: "isValid (validateTicketData t) = JSBool True"
    if "(side t = Some ''YES'' \<or> side t = Some ''NO'')
          \<and> (\<exists>p. price t = Some p \<and> isValidPrice (Some p) defaultPriceOptions)
          \<and> isValidQuantity (Some q) defaultQuantityOptions"
    using that assms(4) by (simp add: validateTicketData_isValid_true_iff)
  show ?thesis using e s w v cp by simp
qed

theorem validateTicketData_fee_mismatch_witness:
  "\<bar>1 - 1 / 100 * 10 :: rat\<bar> > 1 / 100
   \<and> FeeValidationFailed (FeeInconsistency 1 (1 / 100) 10 (1 / 100 * 10))
       \<in> set (errors (validateTicketData
            \<lparr>side = Some ''YES'', price = Some (1 / 2), quantity = Some 10,
             fee = Some \<lparr>fee_info.totalFee = Some 1, perContractFee = Some (1 / 100),
                         feeSource = ''ticket'', rawText = None\<rparr>,
             isValid = JSBool False, errors = [], validationSummary = None\<rparr>))
   \<and> isValid (validateTicketData
            \<lparr>side = Some ''YES'', price = Some (1 / 2), quantity = Some 10,
             fee = Some \<lparr>fee_info.totalFee = Some 1, perContractFee = Some (1 / 100),
                         feeSource = ''ticket'', rawText = None\<rparr>,
             isValid = JSBool False, errors = [], validationSummary = None\<rparr>) = JSBool True"
proof -
  have p: "isValidPrice (Some (1 / 2)) defaultPriceOptions"
    by (rule isValidPrice_in_range) simp_all
  have q: "isValidQuantity (Some 10) defaultQuantityOptions"
    by (simp add: isValidQuantity_whole Number_isInteger_def)
  show ?thesis
    using p q
      validateTicketData_fee_mismatch [of
        "\<lparr>side = Some ''YES'', price = Some (1 / 2), quantity = Some 10,
          fee = Some \<lparr>fee_info.totalFee = Some 1, perContractFee = Some (1 / 100),
                      feeSource = ''ticket'', rawText = None\<rparr>,
          isValid = JSBool False, errors = [], validationSummary = None\<rparr>"
        "\<lparr>fee_info.totalFee = Some 1, perContractFee = Some (1 / 100),
          feeSource = ''ticket'', rawText = None\<rparr>" 1 "1 / 100" 10]
    by auto
qed

section \<open>Quantity fallback\<close>

lemma parseQuantityFallback3_result:
  "parseQuantityFallback3 el \<noteq> None"
  by (simp add: parseQuantityFallback3_def split: option.splits)

lemma parseQuantityWithFallback_result:
  "parseQuantityWithFallback primaryResult fallback1Result fallback2Result el \<noteq> None"
  using parseQuantityFallback3_result [of el]
  by (auto simp: parseQuantityWithFallback_def Let_def)

text \<open>
  C9 on the source: for a ticket subtree without any input, where no strategy finds a
  quantity and neither side nor price is there, \<open>parseQuantityFallback3\<close> returns 1 and so
  does \<open>parseQuantityWithFallback\<close>; the test for the other fields, which the comment in the
  source announces and which recovery strategy 4 makes, is missing here. On the same
  data strategy 4 leaves the quantity absent.
\<close>

theorem parseQuantityFallback3_default_unguarded:
  "parseQuantityFallback3 \<lparr>controls = [], selectedButtons = [], textContent = []\<rparr> = Some 1
   \<and> parseQuantityWithFallback None None None
        \<lparr>controls = [], selectedButtons = [], textContent = []\<rparr> = Some 1
   \<and> quantity (fst (recoveryStrategy4
        \<lparr>side = None, price = None, quantity = None, fee = None,
         isValid = JSBool False, errors = [], validationSummary = None\<rparr>)) = None"
  by (simp add: parseQuantityFallback3_def parseQuantityWithFallback_def recoveryStrategy4_def
      numberTruthy_def stringTruthy_def)


section \<open>Ticket hash and the re-parse transition\<close>

lemma hashContent_cong:
  assumes "map (\<lambda>input. (hashKey input, val input)) (visibleControls a)
             = map (\<lambda>input. (hashKey input, val input)) (visibleControls b)"
    and "map trim (selectedButtons a) = map trim (selectedButtons b)"
    and "take 500 (trim (textContent a)) = take 500 (trim (textContent b))"
  shows "hashContent a = hashContent b"
proof -
  have c: "map (\<lambda>input. hashKey input @ str '':'' @ val input @ str ''|'') xs
             = map (\<lambda>(k, v). k @ str '':'' @ v @ str ''|'')
                 (map (\<lambda>input. (hashKey input, val input)) xs)" for xs
    by simp
  have b: "map (\<lambda>button. str ''btn:'' @ trim button @ str ''|'') xs
             = map (\<lambda>t. str ''btn:'' @ t @ str ''|'') (map trim xs)" for xs
    by simp
  show ?thesis
    unfolding hashContent_def c b assms ..
qed

lemma trim_unchanged:
  assumes "s \<noteq> []" and "\<not> isWhiteSpace (hd s)" and "\<not> isWhiteSpace (last s)"
  shows "trim s = s"
proof -
  have "dropWhile isWhiteSpace s = s"
    using assms(1,2) by (cases s) simp_all
  moreover have "dropWhile isWhiteSpace (rev s) = rev s"
    using assms(1,3) by (cases "rev s") (simp_all add: hd_rev [symmetric])
  ultimately show ?thesis by (simp add: trim_def)
qed

text \<open>
  C10: two ticket subtrees that agree on the key (\<open>name || id\<close>) and value of each control
  that is not hidden, on the trimmed text of each selected button and on the first 500
  characters of the trimmed text content have the same hash; and when the state is open
  with the hash of the first, a run of \<open>processOrderTicket\<close> that finds the second takes no
  transition: it does not re-parse.
\<close>

theorem generateTicketHash_agree:
  assumes "map (\<lambda>input. (hashKey input, val input)) (visibleControls a)
             = map (\<lambda>input. (hashKey input, val input)) (visibleControls b)"
    and "map trim (selectedButtons a) = map trim (selectedButtons b)"
    and "take 500 (trim (textContent a)) = take 500 (trim (textContent b))"
  shows "generateTicketHash (Some a) = generateTicketHash (Some b)
         \<and> (isOpen st \<and> lastTicketHash st = generateTicketHash (Some a)
              \<longrightarrow> processOrderTicket st (Some b) = (st, NoTransition))"
proof -
  have "hashContent a = hashContent b"
    using assms by (rule hashContent_cong)
  then have h: "generateTicketHash (Some a) = generateTicketHash (Some b)"
    by (simp add: generateTicketHash_def)
  then show ?thesis
    by (simp add: processOrderTicket_def)
qed

theorem generateTicketHash_agree_witness:
  "textContent \<lparr>controls = [], selectedButtons = [], textContent = replicate 500 0x78 @ [0x41]\<rparr>
     \<noteq> textContent \<lparr>controls = [], selectedButtons = [],
                      textContent = replicate 500 0x78 @ [0x42]\<rparr>
   \<and> generateTicketHash
        (Some \<lparr>controls = [], selectedButtons = [], textContent = replicate 500 0x78 @ [0x41]\<rparr>)
     = generateTicketHash
        (Some \<lparr>controls = [], selectedButtons = [], textContent = replicate 500 0x78 @ [0x42]\<rparr>)"
proof -
  let ?a = "\<lparr>controls = [], selectedButtons = [],
             textContent = replicate 500 (0x78 :: 16 word) @ [0x41]\<rparr>"
  let ?b = "\<lparr>controls = [], selectedButtons = [],
             textContent = replicate 500 (0x78 :: 16 word) @ [0x42]\<rparr>"
  have ws: "\<not> isWhiteSpace 0x78" "\<not> isWhiteSpace 0x41" "\<not> isWhiteSpace 0x42"
    by (simp_all add: isWhiteSpace_def)
  have hd500: "hd (replicate 500 (0x78 :: 16 word) @ [c]) = 0x78" for c
    by (simp add: hd_append)
  have ta: "trim (replicate 500 (0x78 :: 16 word) @ [0x41]) = replicate 500 0x78 @ [0x41]"
    by (rule trim_unchanged) (simp_all add: ws hd500)
  have tb: "trim (replicate 500 (0x78 :: 16 word) @ [0x42]) = replicate 500 0x78 @ [0x42]"
    by (rule trim_unchanged) (simp_all add: ws hd500)
  have c: "map (\<lambda>input. (hashKey input, val input)) (visibleControls ?a)
             = map (\<lambda>input. (hashKey input, val input)) (visibleControls ?b)"
    by (simp add: visibleControls_def)
  have b: "map trim (selectedButtons ?a) = map trim (selectedButtons ?b)"
    by simp
  have t: "take 500 (trim (textContent ?a)) = take 500 (trim (textContent ?b))"
    by (simp add: ta tb)
  have "generateTicketHash (Some ?a) = generateTicketHash (Some ?b)"
    using generateTicketHash_agree [OF c b t] by blast
  then show ?thesis by simp
qed

end
